theory Spec2Isabelle
  imports Main
begin

section \<open>JavaScript values\<close>

text \<open>
  The values that flow through \<^verbatim>\<open>src/index.ts\<close>: tool arguments, request bodies and
  the parsed JSON of an upstream response. An object is the list of its own properties in
  insertion order, its keys distinct. Numbers are the integers, of a magnitude for which
  \<^verbatim>\<open>String(n)\<close> is the decimal numeral (below \<open>10\<^sup>2\<^sup>1\<close>); the theory says nothing about
  fractional numbers, \<^verbatim>\<open>NaN\<close> or infinities.
\<close>

datatype js =
    JUndefined
  | JNull
  | JBool bool
  | JNum int
  | JStr string
  | JArr "js list"
  | JObj "(string \<times> js) list"

text \<open>
  What a \<^verbatim>\<open>throw\<close> carries: an \<^verbatim>\<open>Error\<close> instance with its message, or any other
  value. The \<^verbatim>\<open>catch\<close> blocks of the handlers tell the two apart with
  \<^verbatim>\<open>error instanceof Error\<close>.
\<close>

datatype thrown = Error string | Thrown js

subsection \<open>Strings of numbers\<close>

definition digit :: "nat \<Rightarrow> char" where
  "digit d = ''0123456789abcdef'' ! (d mod 16)"

definition upper_digit :: "nat \<Rightarrow> char" where
  "upper_digit d = ''0123456789ABCDEF'' ! (d mod 16)"

fun dec :: "nat \<Rightarrow> string" where
  "dec n = (if n < 10 then [digit n] else dec (n div 10) @ [digit (n mod 10)])"

declare dec.simps [simp del]

text \<open>\<^verbatim>\<open>String(n)\<close> for an integer \<open>n\<close>.\<close>

definition show_int :: "int \<Rightarrow> string" where
  "show_int i = (if i < 0 then CHR ''-'' # dec (nat (- i)) else dec (nat i))"

subsection \<open>Truthiness, string conversion, property reads\<close>

text \<open>\<^verbatim>\<open>ToBoolean\<close>: what \<^verbatim>\<open>x ? a : b\<close>, \<^verbatim>\<open>!x\<close> and \<^verbatim>\<open>x || y\<close> test.\<close>

fun truthy :: "js \<Rightarrow> bool" where
  "truthy JUndefined = False"
| "truthy JNull = False"
| "truthy (JBool b) = b"
| "truthy (JNum n) = (n \<noteq> 0)"
| "truthy (JStr s) = (s \<noteq> [])"
| "truthy (JArr xs) = True"
| "truthy (JObj kvs) = True"

text \<open>\<^verbatim>\<open>xs.join(sep)\<close> on strings.\<close>

fun join :: "string \<Rightarrow> string list \<Rightarrow> string" where
  "join sep [] = []"
| "join sep [x] = x"
| "join sep (x # y # ys) = x @ sep @ join sep (y # ys)"

text \<open>
  \<^verbatim>\<open>String(v)\<close>, which is also what a template literal \<^verbatim>\<open>${v}\<close> inserts. An array
  joins its elements with commas, \<^verbatim>\<open>null\<close> and \<^verbatim>\<open>undefined\<close> elements giving the
  empty string; a plain object gives \<^verbatim>\<open>[object Object]\<close>.
\<close>

fun to_string :: "js \<Rightarrow> string" where
  "to_string JUndefined = ''undefined''"
| "to_string JNull = ''null''"
| "to_string (JBool b) = (if b then ''true'' else ''false'')"
| "to_string (JNum n) = show_int n"
| "to_string (JStr s) = s"
| "to_string (JArr xs) =
     join '','' (map (\<lambda>x. if x = JUndefined \<or> x = JNull then [] else to_string x) xs)"
| "to_string (JObj kvs) = ''[object Object]''"

text \<open>
  \<^verbatim>\<open>v.name\<close> for a property name that no prototype defines (\<^verbatim>\<open>id\<close>, \<^verbatim>\<open>url\<close>,
  \<^verbatim>\<open>data\<close>, \<^verbatim>\<open>name\<close>, \<^verbatim>\<open>email\<close>, \<^verbatim>\<open>plan\<close>): reading it from \<^verbatim>\<open>null\<close> or
  \<^verbatim>\<open>undefined\<close> throws a \<^verbatim>\<open>TypeError\<close> (the message is V8's), an object gives the
  property or \<^verbatim>\<open>undefined\<close>, any other value gives \<^verbatim>\<open>undefined\<close>.
\<close>

definition own_prop :: "(string \<times> js) list \<Rightarrow> string \<Rightarrow> js" where
  "own_prop kvs name = (case map_of kvs name of None \<Rightarrow> JUndefined | Some v \<Rightarrow> v)"

fun read_prop :: "js \<Rightarrow> string \<Rightarrow> thrown + js" where
  "read_prop JUndefined name =
     Inl (Error (''Cannot read properties of undefined (reading '' @ [CHR 0x27] @ name @ [CHR 0x27] @ '')''))"
| "read_prop JNull name =
     Inl (Error (''Cannot read properties of null (reading '' @ [CHR 0x27] @ name @ [CHR 0x27] @ '')''))"
| "read_prop (JObj kvs) name = Inr (own_prop kvs name)"
| "read_prop v name = Inr JUndefined"

subsection \<open>\<^verbatim>\<open>JSON.stringify\<close>\<close>

definition hex4 :: "nat \<Rightarrow> string" where
  "hex4 n = [digit (n div 4096), digit (n div 256), digit (n div 16), digit n]"

text \<open>The escapes of \<^verbatim>\<open>QuoteJSONString\<close> on a string of bytes.\<close>

definition escape_char :: "char \<Rightarrow> string" where
  "escape_char c =
     (if c = CHR 0x22 then [CHR 0x5C, CHR 0x22]
      else if c = CHR 0x5C then [CHR 0x5C, CHR 0x5C]
      else if c = CHR 0x08 then [CHR 0x5C, CHR ''b'']
      else if c = CHR 0x0C then [CHR 0x5C, CHR ''f'']
      else if c = CHR 0x0A then [CHR 0x5C, CHR ''n'']
      else if c = CHR 0x0D then [CHR 0x5C, CHR ''r'']
      else if c = CHR 0x09 then [CHR 0x5C, CHR ''t'']
      else if (of_char c :: nat) < 32 then [CHR 0x5C, CHR ''u''] @ hex4 (of_char c)
      else [c])"

definition quote :: "string \<Rightarrow> string" where
  "quote s = [CHR 0x22] @ concat (map escape_char s) @ [CHR 0x22]"

text \<open>
  The properties \<^verbatim>\<open>JSON.stringify\<close> writes for an object: those whose value is not
  \<^verbatim>\<open>undefined\<close>.
\<close>

definition members :: "(string \<times> js) list \<Rightarrow> (string \<times> js) list" where
  "members kvs = filter (\<lambda>kv. snd kv \<noteq> JUndefined) kvs"

text \<open>
  \<^verbatim>\<open>JSON.stringify(v, null, gap)\<close> for a value other than \<^verbatim>\<open>undefined\<close>, at the
  indentation \<open>ind\<close>; the gap is empty for the one-argument call. An \<^verbatim>\<open>undefined\<close>
  array element is written \<^verbatim>\<open>null\<close>.
\<close>

function serialize :: "string \<Rightarrow> string \<Rightarrow> js \<Rightarrow> string" where
  "serialize gap ind JUndefined = ''null''"
| "serialize gap ind JNull = ''null''"
| "serialize gap ind (JBool b) = (if b then ''true'' else ''false'')"
| "serialize gap ind (JNum n) = show_int n"
| "serialize gap ind (JStr s) = quote s"
| "serialize gap ind (JArr xs) =
     (let parts = map (serialize gap (ind @ gap)) xs in
      if parts = [] then ''[]''
      else if gap = [] then ''['' @ join '','' parts @ '']''
      else ''['' @ [CHR 0x0A] @ ind @ gap @ join ('','' @ [CHR 0x0A] @ ind @ gap) parts
             @ [CHR 0x0A] @ ind @ '']'')"
| "serialize gap ind (JObj kvs) =
     (let parts = map (\<lambda>kv. quote (fst kv) @ (if gap = [] then '':'' else '': '')
                               @ serialize gap (ind @ gap) (snd kv)) (members kvs) in
      if parts = [] then ''{}''
      else if gap = [] then ''{'' @ join '','' parts @ ''}''
      else ''{'' @ [CHR 0x0A] @ ind @ gap @ join ('','' @ [CHR 0x0A] @ ind @ gap) parts
             @ [CHR 0x0A] @ ind @ ''}'')"
  by pat_completeness auto

termination
proof (relation "measure (\<lambda>(gap, ind, v). size v)")
  show "wf (measure (\<lambda>(gap, ind, v). size v))"
    by simp
next
  fix gap ind :: string and xs :: "js list" and x :: js
  assume "x \<in> set xs"
  then have "size x < Suc (size_list size xs)"
    by (induction xs) auto
  then show "((gap, ind @ gap, x), (gap, ind, JArr xs)) \<in> measure (\<lambda>(gap, ind, v). size v)"
    by simp
next
  fix gap ind :: string and kvs :: "(string \<times> js) list" and kv :: "string \<times> js"
  assume "kv \<in> set (members kvs)"
  then have "kv \<in> set kvs"
    by (simp add: members_def)
  then have "size (snd kv) < size (JObj kvs)"
    by (induction kvs) auto
  then show "((gap, ind @ gap, snd kv), (gap, ind, JObj kvs)) \<in> measure (\<lambda>(gap, ind, v). size v)"
    by simp
qed

text \<open>\<^verbatim>\<open>JSON.stringify(v)\<close> and \<^verbatim>\<open>JSON.stringify(v, null, 2)\<close>; both give
  \<^verbatim>\<open>undefined\<close> for \<^verbatim>\<open>undefined\<close>.\<close>

definition JSON_stringify :: "js \<Rightarrow> js" where
  "JSON_stringify v = (if v = JUndefined then JUndefined else JStr (serialize [] [] v))"

definition JSON_stringify2 :: "js \<Rightarrow> js" where
  "JSON_stringify2 v = (if v = JUndefined then JUndefined else JStr (serialize ''  '' [] v))"

subsection \<open>\<^verbatim>\<open>Array.prototype.slice\<close>, \<^verbatim>\<open>length\<close>, \<^verbatim>\<open>URLSearchParams\<close>\<close>

text \<open>
  \<^verbatim>\<open>xs.slice(start, fin)\<close> with integer arguments: a negative index counts from the end,
  and both are clamped to the array.
\<close>

definition slice :: "'a list \<Rightarrow> int \<Rightarrow> int \<Rightarrow> 'a list" where
  "slice xs start fin =
     (let len = int (length xs);
          k = (if start < 0 then max (len + start) 0 else min start len);
          final = (if fin < 0 then max (len + fin) 0 else min fin len)
      in take (nat (final - k)) (drop (nat k) xs))"

text \<open>\<^verbatim>\<open>v.length\<close> of a value that is not \<^verbatim>\<open>null\<close> or \<^verbatim>\<open>undefined\<close>.\<close>

fun js_length :: "js \<Rightarrow> js" where
  "js_length (JArr xs) = JNum (int (length xs))"
| "js_length (JStr s) = JNum (int (length s))"
| "js_length (JObj kvs) = own_prop kvs ''length''"
| "js_length v = JUndefined"

text \<open>
  The \<^verbatim>\<open>application/x-www-form-urlencoded\<close> serializer behind
  \<^verbatim>\<open>new URLSearchParams(query).toString()\<close>: letters, digits and \<^verbatim>\<open>*-._\<close> stay, a space
  becomes \<^verbatim>\<open>+\<close>, every other byte is percent-encoded.
\<close>

definition unreserved :: "char \<Rightarrow> bool" where
  "unreserved c =
     (let n = (of_char c :: nat) in
      (48 \<le> n \<and> n \<le> 57) \<or> (65 \<le> n \<and> n \<le> 90) \<or> (97 \<le> n \<and> n \<le> 122)
      \<or> c = CHR ''*'' \<or> c = CHR ''-'' \<or> c = CHR ''.'' \<or> c = CHR ''_'')"

definition form_encode_char :: "char \<Rightarrow> string" where
  "form_encode_char c =
     (if unreserved c then [c]
      else if c = CHR '' '' then ''+''
      else [CHR ''%'', upper_digit (of_char c div 16), upper_digit (of_char c)])"

definition form_encode :: "string \<Rightarrow> string" where
  "form_encode s = concat (map form_encode_char s)"

definition URLSearchParams_toString :: "(string \<times> js) list \<Rightarrow> string" where
  "URLSearchParams_toString q =
     join ''&'' (map (\<lambda>kv. form_encode (fst kv) @ ''='' @ form_encode (to_string (snd kv))) q)"

section \<open>Effects: the upstream platform and asynchronous tasks\<close>

text \<open>
  An outbound HTTP request as \<^verbatim>\<open>fetcher\<close> hands it to \<^verbatim>\<open>fetch\<close>, and the part of the
  response it looks at: the status and what \<^verbatim>\<open>res.text()\<close> and \<^verbatim>\<open>res.json()\<close>
  resolve or reject with.
\<close>

record request =
  req_url :: string
  req_method :: string
  req_headers :: "(string \<times> string) list"
  req_body :: "string option"

record response =
  res_status :: nat
  res_text :: "thrown + string"
  res_json :: "thrown + js"

definition ok :: "response \<Rightarrow> bool" where
  "ok res = (200 \<le> res_status res \<and> res_status res \<le> 299)"

text \<open>
  The platform behind \<^verbatim>\<open>fetch\<close> is a state machine that the theory knows nothing about:
  in a state \<open>u\<close> it answers a request by rejecting or by a response, and moves on. The
  world is the platform's state and the requests sent so far. A task is an
  \<^verbatim>\<open>async\<close> computation: it runs in a world and either throws or returns.
\<close>

type_synonym 'u platform = "'u \<Rightarrow> request \<Rightarrow> (thrown + response) \<times> 'u"

type_synonym 'u world = "'u \<times> request list"

type_synonym ('u, 'a) task = "'u world \<Rightarrow> (thrown + 'a) \<times> 'u world"

definition return :: "'a \<Rightarrow> ('u, 'a) task" where
  "return x w = (Inr x, w)"

definition throw :: "thrown \<Rightarrow> ('u, 'a) task" where
  "throw e w = (Inl e, w)"

text \<open>A synchronous expression that may throw.\<close>

definition sync :: "thrown + 'a \<Rightarrow> ('u, 'a) task" where
  "sync r w = (r, w)"

text \<open>\<^verbatim>\<open>const x = await m; f(x)\<close>\<close>

definition await :: "('u, 'a) task \<Rightarrow> ('a \<Rightarrow> ('u, 'b) task) \<Rightarrow> ('u, 'b) task" where
  "await m f w = (case m w of (Inl e, w') \<Rightarrow> (Inl e, w') | (Inr x, w') \<Rightarrow> f x w')"

text \<open>\<^verbatim>\<open>try { m } catch (error) { h(error) }\<close>\<close>

definition try_catch :: "('u, 'a) task \<Rightarrow> (thrown \<Rightarrow> ('u, 'a) task) \<Rightarrow> ('u, 'a) task" where
  "try_catch m h w = (case m w of (Inl e, w') \<Rightarrow> h e w' | (Inr x, w') \<Rightarrow> (Inr x, w'))"

definition fetch :: "'u platform \<Rightarrow> request \<Rightarrow> ('u, response) task" where
  "fetch net req w = (case net (fst w) req of (r, u') \<Rightarrow> (r, (u', snd w @ [req])))"

section \<open>The v0 client (\<^verbatim>\<open>createV0Client\<close>)\<close>

definition BASE_URL :: string where
  "BASE_URL = ''https://api.v0.dev/v1''"

text \<open>
  The third argument of \<^verbatim>\<open>fetcher\<close>: \<^verbatim>\<open>params.query\<close> (absent, or an object of query
  parameters) and \<^verbatim>\<open>params.body\<close> (\<^verbatim>\<open>undefined\<close> when absent). No caller passes
  \<^verbatim>\<open>params.headers\<close>.
\<close>

record fetcher_params =
  query :: "(string \<times> js) list option"
  body :: js

definition no_params :: fetcher_params where
  "no_params = \<lparr>query = None, body = JUndefined\<rparr>"

text \<open>
  \<^verbatim>\<open>fetcher(url, method, params)\<close> with the \<^verbatim>\<open>apiKey\<close> of the enclosing client. Where
  \<^verbatim>\<open>hasBody\<close> holds the body is truthy, so \<^verbatim>\<open>JSON.stringify\<close> gives a string.
\<close>

definition fetcher :: "js \<Rightarrow> 'u platform \<Rightarrow> string \<Rightarrow> string \<Rightarrow> fetcher_params \<Rightarrow> ('u, js) task" where
  "fetcher apiKey net url method params =
     (let queryString = (case query params of
                           Some q \<Rightarrow> ''?'' @ URLSearchParams_toString q
                         | None \<Rightarrow> []);
          finalUrl = BASE_URL @ url @ queryString
      in if \<not> truthy apiKey then throw (Error ''V0_API_KEY is required'')
         else
           let hasBody = (method \<noteq> ''GET'' \<and> truthy (body params));
               headers = [(''Authorization'', ''Bearer '' @ to_string apiKey)]
                         @ (if hasBody then [(''Content-Type'', ''application/json'')] else [])
           in await (fetch net \<lparr>req_url = finalUrl, req_method = method, req_headers = headers,
                                req_body = (if hasBody then Some (serialize [] [] (body params))
                                            else None)\<rparr>)
                (\<lambda>res. if \<not> ok res
                       then await (sync (res_text res))
                              (\<lambda>text. throw (Error (''HTTP '' @ dec (res_status res) @ '': '' @ text)))
                       else sync (res_json res)))"

text \<open>
  For stating what \<^verbatim>\<open>fetcher\<close> does when the key is truthy: the request it sends, and
  what it makes of the answer of \<^verbatim>\<open>fetch\<close> (a rejection passes through, a status
  outside 200 to 299 becomes \<^verbatim>\<open>Error("HTTP <status>: <text>")\<close>, otherwise the parsed
  body).
\<close>

definition request_for :: "js \<Rightarrow> string \<Rightarrow> string \<Rightarrow> fetcher_params \<Rightarrow> request" where
  "request_for apiKey url method params =
     \<lparr>req_url = BASE_URL @ url @ (case query params of
                                      Some q \<Rightarrow> ''?'' @ URLSearchParams_toString q
                                    | None \<Rightarrow> []),
      req_method = method,
      req_headers = [(''Authorization'', ''Bearer '' @ to_string apiKey)]
                    @ (if method \<noteq> ''GET'' \<and> truthy (body params)
                       then [(''Content-Type'', ''application/json'')] else []),
      req_body = (if method \<noteq> ''GET'' \<and> truthy (body params)
                  then Some (serialize [] [] (body params)) else None)\<rparr>"

definition settle :: "thrown + response \<Rightarrow> thrown + js" where
  "settle r =
     (case r of
        Inl e \<Rightarrow> Inl e
      | Inr res \<Rightarrow>
          if ok res then res_json res
          else (case res_text res of
                  Inl e \<Rightarrow> Inl e
                | Inr text \<Rightarrow> Inl (Error (''HTTP '' @ dec (res_status res) @ '': '' @ text))))"

text \<open>
  \<^verbatim>\<open>Object.fromEntries(Object.entries({...}).filter(([_, value]) => value !== undefined))\<close>
  and the call that follows it in \<^verbatim>\<open>chats.find\<close> and \<^verbatim>\<open>rateLimits.find\<close>.
\<close>

definition find_with_query :: "js \<Rightarrow> 'u platform \<Rightarrow> string \<Rightarrow> (string \<times> js) list \<Rightarrow> ('u, js) task" where
  "find_with_query apiKey net url entries =
     (let query = filter (\<lambda>kv. snd kv \<noteq> JUndefined) entries;
          hasQuery = (length query > 0)
      in fetcher apiKey net url ''GET''
           (if hasQuery then \<lparr>query = Some query, body = JUndefined\<rparr> else no_params))"

definition chats_create :: "js \<Rightarrow> 'u platform \<Rightarrow> (string \<times> js) list \<Rightarrow> ('u, js) task" where
  "chats_create apiKey net params =
     (let body = JObj [(''message'', own_prop params ''message''),
                       (''attachments'', own_prop params ''attachments''),
                       (''system'', own_prop params ''system''),
                       (''chatPrivacy'', own_prop params ''chatPrivacy''),
                       (''projectId'', own_prop params ''projectId''),
                       (''modelConfiguration'', own_prop params ''modelConfiguration'')]
      in fetcher apiKey net ''/chats'' ''POST'' \<lparr>query = None, body = body\<rparr>)"

definition chats_getById :: "js \<Rightarrow> 'u platform \<Rightarrow> (string \<times> js) list \<Rightarrow> ('u, js) task" where
  "chats_getById apiKey net params =
     fetcher apiKey net (''/chats/'' @ to_string (own_prop params ''chatId'')) ''GET'' no_params"

definition chats_createMessage :: "js \<Rightarrow> 'u platform \<Rightarrow> (string \<times> js) list \<Rightarrow> ('u, js) task" where
  "chats_createMessage apiKey net params =
     (let body = JObj [(''message'', own_prop params ''message''),
                       (''attachments'', own_prop params ''attachments''),
                       (''modelConfiguration'', own_prop params ''modelConfiguration'')]
      in fetcher apiKey net (''/chats/'' @ to_string (own_prop params ''chatId'') @ ''/messages'')
           ''POST'' \<lparr>query = None, body = body\<rparr>)"

text \<open>\<^verbatim>\<open>chats.find(params)\<close>, called with an object; \<^verbatim>\<open>rateLimits.find()\<close>, called
  with none, so that its query is empty.\<close>

definition chats_find :: "js \<Rightarrow> 'u platform \<Rightarrow> (string \<times> js) list \<Rightarrow> ('u, js) task" where
  "chats_find apiKey net params =
     find_with_query apiKey net ''/chats''
       [(''limit'', own_prop params ''limit''),
        (''offset'', own_prop params ''offset''),
        (''isFavorite'', own_prop params ''isFavorite'')]"

definition chats_delete :: "js \<Rightarrow> 'u platform \<Rightarrow> (string \<times> js) list \<Rightarrow> ('u, js) task" where
  "chats_delete apiKey net params =
     fetcher apiKey net (''/chats/'' @ to_string (own_prop params ''chatId'')) ''DELETE'' no_params"

definition projects_create :: "js \<Rightarrow> 'u platform \<Rightarrow> (string \<times> js) list \<Rightarrow> ('u, js) task" where
  "projects_create apiKey net params =
     (let body = JObj [(''name'', own_prop params ''name''),
                       (''description'', own_prop params ''description''),
                       (''icon'', own_prop params ''icon''),
                       (''environmentVariables'', own_prop params ''environmentVariables''),
                       (''instructions'', own_prop params ''instructions'')]
      in fetcher apiKey net ''/projects'' ''POST'' \<lparr>query = None, body = body\<rparr>)"

definition projects_find :: "js \<Rightarrow> 'u platform \<Rightarrow> ('u, js) task" where
  "projects_find apiKey net = fetcher apiKey net ''/projects'' ''GET'' no_params"

definition user_get :: "js \<Rightarrow> 'u platform \<Rightarrow> ('u, js) task" where
  "user_get apiKey net = fetcher apiKey net ''/user'' ''GET'' no_params"

definition user_getPlan :: "js \<Rightarrow> 'u platform \<Rightarrow> ('u, js) task" where
  "user_getPlan apiKey net = fetcher apiKey net ''/user/plan'' ''GET'' no_params"

definition rateLimits_find :: "js \<Rightarrow> 'u platform \<Rightarrow> ('u, js) task" where
  "rateLimits_find apiKey net = find_with_query apiKey net ''/rate-limits'' []"

section \<open>The tools (\<^verbatim>\<open>MyMCP.init\<close>)\<close>

subsection \<open>Result envelopes\<close>

text \<open>
  What every handler returns: \<^verbatim>\<open>{ content: [{ type: "text", text: ... }] }\<close>. The
  fields \<^verbatim>\<open>type\<close> and \<^verbatim>\<open>text\<close> of a content block are \<open>block_type\<close> and
  \<open>block_text\<close> here.
\<close>

record content_block =
  block_type :: string
  block_text :: string

record envelope =
  content :: "content_block list"

definition text_result :: "string \<Rightarrow> envelope" where
  "text_result t = \<lparr>content = [\<lparr>block_type = ''text'', block_text = t\<rparr>]\<rparr>"

text \<open>\<^verbatim>\<open>error instanceof Error ? error.message : String(error)\<close>\<close>

definition error_message :: "thrown \<Rightarrow> string" where
  "error_message error = (case error of Error m \<Rightarrow> m | Thrown v \<Rightarrow> to_string v)"

abbreviation NL :: string where
  "NL \<equiv> [CHR 0x0A]"

text \<open>An optional argument is \<^verbatim>\<open>undefined\<close> when absent.\<close>

definition opt :: "('a \<Rightarrow> js) \<Rightarrow> 'a option \<Rightarrow> js" where
  "opt f x = (case x of None \<Rightarrow> JUndefined | Some v \<Rightarrow> f v)"

text \<open>\<^verbatim>\<open>a ?? b\<close>\<close>

definition nullish :: "js \<Rightarrow> js \<Rightarrow> js" where
  "nullish a b = (if a = JUndefined \<or> a = JNull then b else a)"

text \<open>\<^verbatim>\<open>xs.map(f)\<close> with a callback that may throw: the first throw ends the loop.\<close>

fun map_throwing :: "('a \<Rightarrow> thrown + 'b) \<Rightarrow> 'a list \<Rightarrow> thrown + 'b list" where
  "map_throwing f [] = Inr []"
| "map_throwing f (x # xs) =
     (case f x of
        Inl e \<Rightarrow> Inl e
      | Inr y \<Rightarrow> (case map_throwing f xs of Inl e \<Rightarrow> Inl e | Inr ys \<Rightarrow> Inr (y # ys)))"

text \<open>
  \<^verbatim>\<open>data.slice(start, fin).map(f).join("\n")\<close> on a truthy \<open>data\<close>, named \<open>what\<close> in
  the source text. A string has \<^verbatim>\<open>slice\<close> but its result has no \<^verbatim>\<open>map\<close>; a
  number, \<^verbatim>\<open>true\<close> or an object has no callable \<^verbatim>\<open>slice\<close>. The messages are V8's.
\<close>

definition slice_map_join ::
    "string \<Rightarrow> js \<Rightarrow> int \<Rightarrow> int \<Rightarrow> (js \<Rightarrow> thrown + string) \<Rightarrow> thrown + string" where
  "slice_map_join what data start fin f =
     (case data of
        JArr xs \<Rightarrow> (case map_throwing f (slice xs start fin) of
                     Inl e \<Rightarrow> Inl e
                   | Inr ls \<Rightarrow> Inr (join NL ls))
      | JStr s \<Rightarrow> Inl (Error (what @ ''.slice(...).map is not a function''))
      | _ \<Rightarrow> Inl (Error (what @ ''.slice is not a function'')))"

subsection \<open>The handlers\<close>

text \<open>
  Each handler is \<^verbatim>\<open>async (args) => { try { ... } catch (error) { ... } }\<close>. The
  \<open>_try\<close> definition is the \<^verbatim>\<open>try\<close> block, the \<open>_handler\<close> definition the whole
  function. The arguments have the types the schema of the tool gives them.
\<close>

definition create_chat_try ::
    "js \<Rightarrow> 'u platform \<Rightarrow> string \<Rightarrow> string option \<Rightarrow> string option \<Rightarrow> string option
       \<Rightarrow> bool option \<Rightarrow> ('u, envelope) task" where
  "create_chat_try apiKey net message system chatPrivacy modelId imageGenerations =
     await (chats_create apiKey net
              [(''message'', JStr message),
               (''system'', opt JStr system),
               (''chatPrivacy'', opt JStr chatPrivacy),
               (''modelConfiguration'',
                  if truthy (opt JStr modelId)
                  then JObj [(''modelId'', opt JStr modelId),
                             (''imageGenerations'', nullish (opt JBool imageGenerations) (JBool False))]
                  else JUndefined)])
       (\<lambda>result.
          await (sync (read_prop result ''url'')) (\<lambda>url.
          await (sync (read_prop result ''id'')) (\<lambda>ident.
            return (text_result (''Chat created successfully!'' @ NL @ NL @ ''Chat URL: ''
                                 @ to_string url @ NL @ ''Chat ID: '' @ to_string ident)))))"

definition create_chat_handler ::
    "js \<Rightarrow> 'u platform \<Rightarrow> string \<Rightarrow> string option \<Rightarrow> string option \<Rightarrow> string option
       \<Rightarrow> bool option \<Rightarrow> ('u, envelope) task" where
  "create_chat_handler apiKey net message system chatPrivacy modelId imageGenerations =
     try_catch (create_chat_try apiKey net message system chatPrivacy modelId imageGenerations)
       (\<lambda>error. return (text_result (''Error creating chat: '' @ error_message error)))"

definition get_chat_try :: "js \<Rightarrow> 'u platform \<Rightarrow> string \<Rightarrow> ('u, envelope) task" where
  "get_chat_try apiKey net chatId =
     await (chats_getById apiKey net [(''chatId'', JStr chatId)])
       (\<lambda>chat.
          await (sync (read_prop chat ''id'')) (\<lambda>ident.
          await (sync (read_prop chat ''url'')) (\<lambda>url.
            return (text_result (''Chat Details:'' @ NL @ NL @ ''ID: '' @ to_string ident
                                 @ NL @ ''URL: '' @ to_string url)))))"

definition get_chat_handler :: "js \<Rightarrow> 'u platform \<Rightarrow> string \<Rightarrow> ('u, envelope) task" where
  "get_chat_handler apiKey net chatId =
     try_catch (get_chat_try apiKey net chatId)
       (\<lambda>error. return (text_result (''Error retrieving chat: '' @ error_message error)))"

definition add_message_try :: "js \<Rightarrow> 'u platform \<Rightarrow> string \<Rightarrow> string \<Rightarrow> ('u, envelope) task" where
  "add_message_try apiKey net chatId message =
     await (chats_createMessage apiKey net [(''chatId'', JStr chatId), (''message'', JStr message)])
       (\<lambda>response.
          return (text_result (''Message added successfully!'' @ NL @ NL @ ''Response: ''
                               @ to_string (JSON_stringify2 response))))"

definition add_message_handler :: "js \<Rightarrow> 'u platform \<Rightarrow> string \<Rightarrow> string \<Rightarrow> ('u, envelope) task" where
  "add_message_handler apiKey net chatId message =
     try_catch (add_message_try apiKey net chatId message)
       (\<lambda>error. return (text_result (''Error adding message: '' @ error_message error)))"

definition chat_line :: "js \<Rightarrow> thrown + string" where
  "chat_line chat =
     (case read_prop chat ''id'' of Inl e \<Rightarrow> Inl e | Inr ident \<Rightarrow> Inr (''- '' @ to_string ident))"

definition find_chats_try :: "js \<Rightarrow> 'u platform \<Rightarrow> int option \<Rightarrow> int option \<Rightarrow> ('u, envelope) task" where
  "find_chats_try apiKey net limit0 offset0 =
     (let limit = (case limit0 of None \<Rightarrow> 10 | Some n \<Rightarrow> n);
          offset = (case offset0 of None \<Rightarrow> 0 | Some n \<Rightarrow> n)
      in await (chats_find apiKey net [(''limit'', JStr (to_string (JNum limit))),
                                       (''offset'', JStr (to_string (JNum offset)))])
           (\<lambda>chats.
              await (sync (read_prop chats ''data'')) (\<lambda>data.
              await (sync (if truthy data then slice_map_join ''chats.data'' data 0 limit chat_line
                           else Inr ''No chats found'')) (\<lambda>chatList.
                return (text_result (''Found ''
                                     @ to_string (if truthy data then js_length data else JNum 0)
                                     @ '' chats:'' @ NL @ NL @ chatList))))))"

definition find_chats_handler :: "js \<Rightarrow> 'u platform \<Rightarrow> int option \<Rightarrow> int option \<Rightarrow> ('u, envelope) task" where
  "find_chats_handler apiKey net limit0 offset0 =
     try_catch (find_chats_try apiKey net limit0 offset0)
       (\<lambda>error. return (text_result (''Error finding chats: '' @ error_message error)))"

definition create_project_try :: "js \<Rightarrow> 'u platform \<Rightarrow> string \<Rightarrow> string option \<Rightarrow> ('u, envelope) task" where
  "create_project_try apiKey net name description =
     await (projects_create apiKey net [(''name'', JStr name), (''description'', opt JStr description)])
       (\<lambda>project.
          await (sync (read_prop project ''id'')) (\<lambda>ident.
          await (sync (read_prop project ''name'')) (\<lambda>pname.
            return (text_result (''Project created successfully!'' @ NL @ NL @ ''ID: '' @ to_string ident
                                 @ NL @ ''Name: '' @ to_string pname)))))"

definition create_project_handler :: "js \<Rightarrow> 'u platform \<Rightarrow> string \<Rightarrow> string option \<Rightarrow> ('u, envelope) task" where
  "create_project_handler apiKey net name description =
     try_catch (create_project_try apiKey net name description)
       (\<lambda>error. return (text_result (''Error creating project: '' @ error_message error)))"

definition project_line :: "js \<Rightarrow> thrown + string" where
  "project_line project =
     (case read_prop project ''id'' of
        Inl e \<Rightarrow> Inl e
      | Inr ident \<Rightarrow> (case read_prop project ''name'' of
                    Inl e \<Rightarrow> Inl e
                  | Inr pname \<Rightarrow> Inr (''- '' @ to_string ident @ '': '' @ to_string pname)))"

definition find_projects_try :: "js \<Rightarrow> 'u platform \<Rightarrow> int option \<Rightarrow> int option \<Rightarrow> ('u, envelope) task" where
  "find_projects_try apiKey net limit0 offset0 =
     (let limit = (case limit0 of None \<Rightarrow> 10 | Some n \<Rightarrow> n);
          offset = (case offset0 of None \<Rightarrow> 0 | Some n \<Rightarrow> n)
      in await (projects_find apiKey net)
           (\<lambda>projects.
              await (sync (read_prop projects ''data'')) (\<lambda>data.
              await (sync (if truthy data
                           then slice_map_join ''projects.data'' data offset (offset + limit) project_line
                           else Inr ''No projects found'')) (\<lambda>projectList.
                return (text_result (''Found ''
                                     @ to_string (if truthy data then js_length data else JNum 0)
                                     @ '' projects:'' @ NL @ NL @ projectList))))))"

definition find_projects_handler :: "js \<Rightarrow> 'u platform \<Rightarrow> int option \<Rightarrow> int option \<Rightarrow> ('u, envelope) task" where
  "find_projects_handler apiKey net limit0 offset0 =
     try_catch (find_projects_try apiKey net limit0 offset0)
       (\<lambda>error. return (text_result (''Error finding projects: '' @ error_message error)))"

definition get_user_info_try :: "js \<Rightarrow> 'u platform \<Rightarrow> ('u, envelope) task" where
  "get_user_info_try apiKey net =
     await (user_get apiKey net)
       (\<lambda>user.
          await (sync (read_prop user ''id'')) (\<lambda>ident.
          await (sync (read_prop user ''email'')) (\<lambda>email.
          await (sync (read_prop user ''name'')) (\<lambda>uname.
            return (text_result (''User Information:'' @ NL @ NL @ ''ID: '' @ to_string ident
                                 @ NL @ ''Email: '' @ to_string email @ NL @ ''Name: ''
                                 @ to_string (if truthy uname then uname else JStr ''Not provided'')))))))"

definition get_user_info_handler :: "js \<Rightarrow> 'u platform \<Rightarrow> ('u, envelope) task" where
  "get_user_info_handler apiKey net =
     try_catch (get_user_info_try apiKey net)
       (\<lambda>error. return (text_result (''Error getting user info: '' @ error_message error)))"

definition get_user_plan_try :: "js \<Rightarrow> 'u platform \<Rightarrow> ('u, envelope) task" where
  "get_user_plan_try apiKey net =
     await (user_getPlan apiKey net)
       (\<lambda>plan.
          await (sync (read_prop plan ''plan'')) (\<lambda>pplan.
            return (text_result (''User Plan:'' @ NL @ NL @ ''Plan: '' @ to_string pplan @ NL
                                 @ ''Details: '' @ to_string (JSON_stringify2 plan)))))"

definition get_user_plan_handler :: "js \<Rightarrow> 'u platform \<Rightarrow> ('u, envelope) task" where
  "get_user_plan_handler apiKey net =
     try_catch (get_user_plan_try apiKey net)
       (\<lambda>error. return (text_result (''Error getting user plan: '' @ error_message error)))"

definition check_rate_limits_try :: "js \<Rightarrow> 'u platform \<Rightarrow> ('u, envelope) task" where
  "check_rate_limits_try apiKey net =
     await (rateLimits_find apiKey net)
       (\<lambda>rateLimits.
          return (text_result (''Rate Limits:'' @ NL @ NL @ to_string (JSON_stringify2 rateLimits))))"

definition check_rate_limits_handler :: "js \<Rightarrow> 'u platform \<Rightarrow> ('u, envelope) task" where
  "check_rate_limits_handler apiKey net =
     try_catch (check_rate_limits_try apiKey net)
       (\<lambda>error. return (text_result (''Error checking rate limits: '' @ error_message error)))"

definition delete_chat_try :: "js \<Rightarrow> 'u platform \<Rightarrow> string \<Rightarrow> ('u, envelope) task" where
  "delete_chat_try apiKey net chatId =
     await (chats_delete apiKey net [(''chatId'', JStr chatId)])
       (\<lambda>_. return (text_result (''Chat '' @ chatId @ '' deleted successfully!'')))"

definition delete_chat_handler :: "js \<Rightarrow> 'u platform \<Rightarrow> string \<Rightarrow> ('u, envelope) task" where
  "delete_chat_handler apiKey net chatId =
     try_catch (delete_chat_try apiKey net chatId)
       (\<lambda>error. return (text_result (''Error deleting chat: '' @ error_message error)))"

subsection \<open>The registered tools\<close>

text \<open>The ten \<^verbatim>\<open>this.server.tool(name, description, schema, handler)\<close> registrations,
  in the order of the source.\<close>

datatype tool =
    create_chat
  | get_chat
  | add_message
  | find_chats
  | create_project
  | find_projects
  | get_user_info
  | get_user_plan
  | check_rate_limits
  | delete_chat

definition tools :: "tool list" where
  "tools = [create_chat, get_chat, add_message, find_chats, create_project, find_projects,
            get_user_info, get_user_plan, check_rate_limits, delete_chat]"

fun tool_name :: "tool \<Rightarrow> string" where
  "tool_name create_chat = ''create_chat''"
| "tool_name get_chat = ''get_chat''"
| "tool_name add_message = ''add_message''"
| "tool_name find_chats = ''find_chats''"
| "tool_name create_project = ''create_project''"
| "tool_name find_projects = ''find_projects''"
| "tool_name get_user_info = ''get_user_info''"
| "tool_name get_user_plan = ''get_user_plan''"
| "tool_name check_rate_limits = ''check_rate_limits''"
| "tool_name delete_chat = ''delete_chat''"

text \<open>The zod schema of a tool: each parameter with its type and whether it is required
  (declared without \<^verbatim>\<open>.optional()\<close>).\<close>

datatype ztype = ZString | ZNumber | ZBoolean | ZEnum "string list"

record param =
  param_name :: string
  semanticType :: ztype
  required :: bool

definition pagination :: "param list" where
  "pagination = [\<lparr>param_name = ''limit'', semanticType = ZNumber, required = False\<rparr>,
                 \<lparr>param_name = ''offset'', semanticType = ZNumber, required = False\<rparr>]"

fun parameterSchema :: "tool \<Rightarrow> param list" where
  "parameterSchema create_chat =
     [\<lparr>param_name = ''message'', semanticType = ZString, required = True\<rparr>,
      \<lparr>param_name = ''system'', semanticType = ZString, required = False\<rparr>,
      \<lparr>param_name = ''chatPrivacy'', semanticType = ZEnum [''private'', ''public''], required = False\<rparr>,
      \<lparr>param_name = ''modelId'', semanticType = ZEnum [''v0-1.5-sm'', ''v0-1.5-md'', ''v0-1.5-lg''],
         required = False\<rparr>,
      \<lparr>param_name = ''imageGenerations'', semanticType = ZBoolean, required = False\<rparr>]"
| "parameterSchema get_chat =
     [\<lparr>param_name = ''chatId'', semanticType = ZString, required = True\<rparr>]"
| "parameterSchema add_message =
     [\<lparr>param_name = ''chatId'', semanticType = ZString, required = True\<rparr>,
      \<lparr>param_name = ''message'', semanticType = ZString, required = True\<rparr>]"
| "parameterSchema find_chats = pagination"
| "parameterSchema create_project =
     [\<lparr>param_name = ''name'', semanticType = ZString, required = True\<rparr>,
      \<lparr>param_name = ''description'', semanticType = ZString, required = False\<rparr>]"
| "parameterSchema find_projects = pagination"
| "parameterSchema get_user_info = []"
| "parameterSchema get_user_plan = []"
| "parameterSchema check_rate_limits = []"
| "parameterSchema delete_chat =
     [\<lparr>param_name = ''chatId'', semanticType = ZString, required = True\<rparr>]"

text \<open>A call of a tool with arguments of the types its schema declares: what the handler
  is invoked with.\<close>

datatype call =
    CreateChat string "string option" "string option" "string option" "bool option"
  | GetChat string
  | AddMessage string string
  | FindChats "int option" "int option"
  | CreateProject string "string option"
  | FindProjects "int option" "int option"
  | GetUserInfo
  | GetUserPlan
  | CheckRateLimits
  | DeleteChat string

fun tool_of :: "call \<Rightarrow> tool" where
  "tool_of (CreateChat message system chatPrivacy modelId imageGenerations) = create_chat"
| "tool_of (GetChat chatId) = get_chat"
| "tool_of (AddMessage chatId message) = add_message"
| "tool_of (FindChats limit offset) = find_chats"
| "tool_of (CreateProject name description) = create_project"
| "tool_of (FindProjects limit offset) = find_projects"
| "tool_of GetUserInfo = get_user_info"
| "tool_of GetUserPlan = get_user_plan"
| "tool_of CheckRateLimits = check_rate_limits"
| "tool_of (DeleteChat chatId) = delete_chat"

text \<open>Running the handler of the called tool, and running only its \<^verbatim>\<open>try\<close> block.\<close>

fun run_call :: "js \<Rightarrow> 'u platform \<Rightarrow> call \<Rightarrow> ('u, envelope) task" where
  "run_call apiKey net (CreateChat message system chatPrivacy modelId imageGenerations) =
     create_chat_handler apiKey net message system chatPrivacy modelId imageGenerations"
| "run_call apiKey net (GetChat chatId) = get_chat_handler apiKey net chatId"
| "run_call apiKey net (AddMessage chatId message) = add_message_handler apiKey net chatId message"
| "run_call apiKey net (FindChats limit offset) = find_chats_handler apiKey net limit offset"
| "run_call apiKey net (CreateProject name description) =
     create_project_handler apiKey net name description"
| "run_call apiKey net (FindProjects limit offset) = find_projects_handler apiKey net limit offset"
| "run_call apiKey net GetUserInfo = get_user_info_handler apiKey net"
| "run_call apiKey net GetUserPlan = get_user_plan_handler apiKey net"
| "run_call apiKey net CheckRateLimits = check_rate_limits_handler apiKey net"
| "run_call apiKey net (DeleteChat chatId) = delete_chat_handler apiKey net chatId"

fun try_call :: "js \<Rightarrow> 'u platform \<Rightarrow> call \<Rightarrow> ('u, envelope) task" where
  "try_call apiKey net (CreateChat message system chatPrivacy modelId imageGenerations) =
     create_chat_try apiKey net message system chatPrivacy modelId imageGenerations"
| "try_call apiKey net (GetChat chatId) = get_chat_try apiKey net chatId"
| "try_call apiKey net (AddMessage chatId message) = add_message_try apiKey net chatId message"
| "try_call apiKey net (FindChats limit offset) = find_chats_try apiKey net limit offset"
| "try_call apiKey net (CreateProject name description) =
     create_project_try apiKey net name description"
| "try_call apiKey net (FindProjects limit offset) = find_projects_try apiKey net limit offset"
| "try_call apiKey net GetUserInfo = get_user_info_try apiKey net"
| "try_call apiKey net GetUserPlan = get_user_plan_try apiKey net"
| "try_call apiKey net CheckRateLimits = check_rate_limits_try apiKey net"
| "try_call apiKey net (DeleteChat chatId) = delete_chat_try apiKey net chatId"

text \<open>The fixed phrase that opens the text of the \<^verbatim>\<open>catch\<close> block of each tool.\<close>

fun error_phrase :: "tool \<Rightarrow> string" where
  "error_phrase create_chat = ''Error creating chat: ''"
| "error_phrase get_chat = ''Error retrieving chat: ''"
| "error_phrase add_message = ''Error adding message: ''"
| "error_phrase find_chats = ''Error finding chats: ''"
| "error_phrase create_project = ''Error creating project: ''"
| "error_phrase find_projects = ''Error finding projects: ''"
| "error_phrase get_user_info = ''Error getting user info: ''"
| "error_phrase get_user_plan = ''Error getting user plan: ''"
| "error_phrase check_rate_limits = ''Error checking rate limits: ''"
| "error_phrase delete_chat = ''Error deleting chat: ''"

section \<open>The request edge (\<^verbatim>\<open>export default { fetch }\<close>)\<close>

text \<open>
  Of an inbound request the entry point reads the path and the query parameters of its
  URL; of the environment, \<^verbatim>\<open>env.V0_API_KEY\<close> (a string, or \<^verbatim>\<open>undefined\<close> when the
  variable is not configured). It answers itself, or hands the request to the MCP server
  with \<^verbatim>\<open>ctx.props.apiKey\<close> set; the handlers of that server use the key of the props.
\<close>

record inbound =
  pathname :: string
  searchParams :: "(string \<times> string) list"

record env =
  V0_API_KEY :: js

datatype served =
    ServeSSE js
  | ServeMCP js
  | Response nat string

text \<open>The entry point of \<^verbatim>\<open>src/index.ts\<close>: the key comes from the environment, and the
  lines that read the \<^verbatim>\<open>Authorization\<close> header and answer 401 are commented out.\<close>

definition default_fetch :: "inbound \<Rightarrow> env \<Rightarrow> served" where
  "default_fetch request env =
     (let apiKey = V0_API_KEY env
      in if pathname request = ''/sse'' \<or> pathname request = ''/sse/message'' then ServeSSE apiKey
         else if pathname request = ''/mcp'' then ServeMCP apiKey
         else Response 404 ''Not found'')"

text \<open>
  The entry point of the other variant of the server in this repository (version 2.0.0,
  on the v0 SDK), which takes the key from the \<^verbatim>\<open>key\<close> query parameter:
  \<^verbatim>\<open>url.searchParams.get("key")\<close> is the first value of that name, or \<^verbatim>\<open>null\<close>.
\<close>

definition searchParams_get :: "(string \<times> string) list \<Rightarrow> string \<Rightarrow> js" where
  "searchParams_get ps name = (case map_of ps name of None \<Rightarrow> JNull | Some v \<Rightarrow> JStr v)"

definition default_fetch_key :: "inbound \<Rightarrow> env \<Rightarrow> served" where
  "default_fetch_key request env =
     (let apiKey = searchParams_get (searchParams request) ''key''
      in if \<not> truthy apiKey then Response 401 ''Missing key query parameter''
         else if pathname request = ''/sse'' \<or> pathname request = ''/sse/message'' then ServeSSE apiKey
         else if pathname request = ''/mcp'' then ServeMCP apiKey
         else Response 404 ''Not found'')"

text \<open>A tool call that arrives through an entry point: answered at the edge, or run by
  the server with the key of the props.\<close>

definition serve_call ::
    "served \<Rightarrow> 'u platform \<Rightarrow> call \<Rightarrow> 'u world \<Rightarrow> (nat \<times> string) + ((thrown + envelope) \<times> 'u world)" where
  "serve_call s net c w =
     (case s of
        ServeSSE apiKey \<Rightarrow> Inr (run_call apiKey net c w)
      | ServeMCP apiKey \<Rightarrow> Inr (run_call apiKey net c w)
      | Response code msg \<Rightarrow> Inl (code, msg))"

section \<open>Lookup, validation and dispatch\<close>

text \<open>
  The source registers each tool with its schema and its handler; looking a name up,
  checking the raw arguments against the schema and calling the handler are done by the
  MCP server library, which is not part of the source. They are modelled here from the
  specification.
\<close>

text \<open>Modelled from the spec: \<open>lookup(name) -> descriptor | NotFound\<close> of the Schema
  Registry (4.1), over the tools the source registers.\<close>

definition lookup :: "string \<Rightarrow> tool option" where
  "lookup name = find (\<lambda>t. tool_name t = name) tools"

text \<open>Modelled from the spec: the check of a present field against its
  \<open>semanticType\<close> (4.2); an enum field accepts exactly its declared options.\<close>

fun conforms :: "ztype \<Rightarrow> js \<Rightarrow> bool" where
  "conforms ZString (JStr s) = True"
| "conforms ZNumber (JNum n) = True"
| "conforms ZBoolean (JBool b) = True"
| "conforms (ZEnum options) (JStr s) = (s \<in> set options)"
| "conforms ty v = False"

text \<open>Modelled from the spec: a schema field offends when it is required and absent
  from \<open>rawArguments\<close>, or present and not of its type (4.2).\<close>

definition offending :: "(string \<times> js) list \<Rightarrow> param \<Rightarrow> bool" where
  "offending rawArguments p =
     (case map_of rawArguments (param_name p) of
        None \<Rightarrow> required p
      | Some v \<Rightarrow> \<not> conforms (semanticType p) v)"

text \<open>Modelled from the spec: \<open>decode(rawArguments, parameterSchema) ->
  ValidatedArguments | ValidationFailure\<close> (4.2). The failure lists every offending field
  of the schema; on success each present schema field is kept, an omitted optional field
  stays absent, and fields that the schema does not declare are ignored.\<close>

definition decode :: "(string \<times> js) list \<Rightarrow> param list \<Rightarrow> string list + (string \<times> js) list" where
  "decode rawArguments schema =
     (let bad = filter (offending rawArguments) schema
      in if bad \<noteq> [] then Inl (map param_name bad)
         else Inr (concat (map (\<lambda>p. case map_of rawArguments (param_name p) of
                                       None \<Rightarrow> []
                                     | Some v \<Rightarrow> [(param_name p, v)]) schema)))"

text \<open>The destructuring of the validated arguments in the parameter list of each handler,
  at the types of the schema.\<close>

definition str_arg :: "(string \<times> js) list \<Rightarrow> string \<Rightarrow> string option" where
  "str_arg args k = (case map_of args k of Some (JStr s) \<Rightarrow> Some s | _ \<Rightarrow> None)"

definition num_arg :: "(string \<times> js) list \<Rightarrow> string \<Rightarrow> int option" where
  "num_arg args k = (case map_of args k of Some (JNum n) \<Rightarrow> Some n | _ \<Rightarrow> None)"

definition bool_arg :: "(string \<times> js) list \<Rightarrow> string \<Rightarrow> bool option" where
  "bool_arg args k = (case map_of args k of Some (JBool b) \<Rightarrow> Some b | _ \<Rightarrow> None)"

fun bind_call :: "tool \<Rightarrow> (string \<times> js) list \<Rightarrow> call option" where
  "bind_call create_chat args =
     (case str_arg args ''message'' of
        None \<Rightarrow> None
      | Some message \<Rightarrow>
          Some (CreateChat message (str_arg args ''system'') (str_arg args ''chatPrivacy'')
                  (str_arg args ''modelId'') (bool_arg args ''imageGenerations'')))"
| "bind_call get_chat args = map_option GetChat (str_arg args ''chatId'')"
| "bind_call add_message args =
     (case str_arg args ''chatId'' of
        None \<Rightarrow> None
      | Some chatId \<Rightarrow> map_option (AddMessage chatId) (str_arg args ''message''))"
| "bind_call find_chats args = Some (FindChats (num_arg args ''limit'') (num_arg args ''offset''))"
| "bind_call create_project args =
     (case str_arg args ''name'' of
        None \<Rightarrow> None
      | Some name \<Rightarrow> Some (CreateProject name (str_arg args ''description'')))"
| "bind_call find_projects args =
     Some (FindProjects (num_arg args ''limit'') (num_arg args ''offset''))"
| "bind_call get_user_info args = Some GetUserInfo"
| "bind_call get_user_plan args = Some GetUserPlan"
| "bind_call check_rate_limits args = Some CheckRateLimits"
| "bind_call delete_chat args = map_option DeleteChat (str_arg args ''chatId'')"

text \<open>The outcome of a dispatch: the envelope of the handler, or one of the two exits
  that are taken before any handler runs.\<close>

datatype outcome =
    Result envelope
  | NotFound string
  | ValidationFailure "string list"

text \<open>Modelled from the spec: \<open>dispatch(name, rawArguments, credential)\<close> (4.5): lookup,
  then validation, then the handler of the tool, the two failure exits short-circuiting
  before execution. The exits are returned as they are: the source has no code that
  renders them, its error texts being written by the \<^verbatim>\<open>catch\<close> blocks of the handlers,
  which run only once the arguments are validated.\<close>

definition dispatch :: "string \<Rightarrow> (string \<times> js) list \<Rightarrow> js \<Rightarrow> 'u platform \<Rightarrow> ('u, outcome) task" where
  "dispatch name rawArguments credential net =
     (case lookup name of
        None \<Rightarrow> return (NotFound name)
      | Some t \<Rightarrow>
          (case decode rawArguments (parameterSchema t) of
             Inl offenders \<Rightarrow> return (ValidationFailure offenders)
           | Inr args \<Rightarrow>
               (case bind_call t args of
                  None \<Rightarrow> return (ValidationFailure (map param_name (parameterSchema t)))
                | Some c \<Rightarrow> await (run_call credential net c) (\<lambda>result. return (Result result)))))"

section \<open>Stub platforms for concrete runs\<close>

text \<open>A platform without state that answers every request with the same response, and
  one whose \<^verbatim>\<open>fetch\<close> rejects.\<close>

definition answering :: "nat \<Rightarrow> string \<Rightarrow> js \<Rightarrow> unit platform" where
  "answering code txt v u req = (Inr \<lparr>res_status = code, res_text = Inr txt, res_json = Inr v\<rparr>, u)"


definition start :: "unit world" where
  "start = ((), [])"

section \<open>Every handler returns an envelope\<close>

lemmas handler_defs = create_chat_handler_def get_chat_handler_def add_message_handler_def
  find_chats_handler_def create_project_handler_def find_projects_handler_def
  get_user_info_handler_def get_user_plan_handler_def check_rate_limits_handler_def
  delete_chat_handler_def

lemmas try_defs = create_chat_try_def get_chat_try_def add_message_try_def
  find_chats_try_def create_project_try_def find_projects_try_def
  get_user_info_try_def get_user_plan_try_def check_rate_limits_try_def
  delete_chat_try_def

lemmas client_defs = chats_create_def chats_getById_def chats_createMessage_def chats_find_def
  chats_delete_def projects_create_def projects_find_def user_get_def user_getPlan_def
  rateLimits_find_def find_with_query_def

lemma try_catch_return:
  "try_catch m (\<lambda>e. return (h e)) w =
     (case m w of (Inl e, w') \<Rightarrow> (Inr (h e), w') | (Inr x, w') \<Rightarrow> (Inr x, w'))"
  by (simp add: try_catch_def return_def split: prod.splits sum.splits)

text \<open>A handler is its \<^verbatim>\<open>try\<close> block, with a throw turned into the text of its
  \<^verbatim>\<open>catch\<close> block in the world the throw left.\<close>

lemma run_call_try_call:
  "run_call apiKey net c w =
     (case try_call apiKey net c w of
        (Inl e, w') \<Rightarrow> (Inr (text_result (error_phrase (tool_of c) @ error_message e)), w')
      | (Inr env, w') \<Rightarrow> (Inr env, w'))"
  by (cases c)
    (simp_all only: run_call.simps try_call.simps tool_of.simps error_phrase.simps handler_defs
      try_catch_return)

lemma await_text:
  assumes "await m f w = (Inr env, w')"
    and "\<And>x w1. f x w1 = (Inr env, w') \<Longrightarrow> \<exists>t. env = text_result t"
  shows "\<exists>t. env = text_result t"
  using assms by (auto simp: await_def split: prod.splits sum.splits)

lemma return_text: "return (text_result s) w = (Inr env, w') \<Longrightarrow> \<exists>t. env = text_result t"
  by (auto simp: return_def)

lemma try_call_text:
  "try_call apiKey net c w = (Inr env, w') \<Longrightarrow> \<exists>t. env = text_result t"
  apply (cases c)
  apply (simp_all only: try_call.simps try_defs Let_def)
  apply (erule await_text, (erule await_text)?, (erule await_text)?, (erule await_text)?,
      erule return_text)+
  done

lemma run_call_text: "\<exists>t w'. run_call apiKey net c w = (Inr (text_result t), w')"
proof -
  obtain r w' where run: "try_call apiKey net c w = (r, w')"
    by (cases "try_call apiKey net c w")
  show ?thesis
  proof (cases r)
    case (Inl e)
    with run show ?thesis by (auto simp: run_call_try_call)
  next
    case (Inr env)
    with run obtain t where "env = text_result t"
      using try_call_text by blast
    with run Inr show ?thesis by (auto simp: run_call_try_call)
  qed
qed

text \<open>
  Claim C1. For every tool, every argument list, every key and every behaviour of the
  platform (a response of any status, a body that does not parse, a rejected
  \<^verbatim>\<open>fetch\<close>, any thrown value), the handler returns an envelope and does not throw; and
  when its \<^verbatim>\<open>try\<close> block throws, what it returns is a text envelope, in the world the
  throw left.
\<close>

theorem handler_returns_envelope:
  "(\<exists>env w'. run_call apiKey net c w = (Inr env, w')) \<and>
   (try_call apiKey net c w = (Inl e, w') \<longrightarrow>
      (\<exists>t. run_call apiKey net c w = (Inr (text_result t), w')))"
  using run_call_text [of apiKey net c w] by (auto simp: run_call_try_call)

theorem handler_returns_envelope_witness:
  "try_call (JStr ''key123'') (answering 404 ''Not Found'' JNull) (DeleteChat ''c1'') start
     = (Inl (Error ''HTTP 404: Not Found''),
        ((), [\<lparr>req_url = ''https://api.v0.dev/v1/chats/c1'', req_method = ''DELETE'',
               req_headers = [(''Authorization'', ''Bearer key123'')], req_body = None\<rparr>]))
   \<and> (\<exists>t. run_call (JStr ''key123'') (answering 404 ''Not Found'' JNull) (DeleteChat ''c1'') start
          = (Inr (text_result t),
             ((), [\<lparr>req_url = ''https://api.v0.dev/v1/chats/c1'', req_method = ''DELETE'',
                    req_headers = [(''Authorization'', ''Bearer key123'')], req_body = None\<rparr>])))"
proof -
  have run: "try_call (JStr ''key123'') (answering 404 ''Not Found'' JNull) (DeleteChat ''c1'') start
     = (Inl (Error ''HTTP 404: Not Found''),
        ((), [\<lparr>req_url = ''https://api.v0.dev/v1/chats/c1'', req_method = ''DELETE'',
               req_headers = [(''Authorization'', ''Bearer key123'')], req_body = None\<rparr>]))"
    by code_simp
  with handler_returns_envelope [of "JStr ''key123''" "answering 404 ''Not Found'' JNull"
      "DeleteChat ''c1''" start] show ?thesis
    by blast
qed

text \<open>
  Claim C9. Whatever the tool, the arguments, the key and the platform do, the handler
  returns an envelope whose content is exactly one block, of type \<^verbatim>\<open>text\<close>, holding a
  string.
\<close>

theorem single_text_block:
  "\<exists>t w'. run_call apiKey net c w
            = (Inr \<lparr>content = [\<lparr>block_type = ''text'', block_text = t\<rparr>]\<rparr>, w')"
  using run_call_text [of apiKey net c w] by (simp add: text_result_def)

section \<open>The text of an error envelope\<close>





section \<open>The key and the request edge\<close>

lemma fetcher_no_key:
  "\<not> truthy apiKey \<Longrightarrow>
     fetcher apiKey net url method params w = (Inl (Error ''V0_API_KEY is required''), w)"
  by (simp add: fetcher_def Let_def throw_def)

lemma try_call_no_key:
  "\<not> truthy apiKey \<Longrightarrow> try_call apiKey net c w = (Inl (Error ''V0_API_KEY is required''), w)"
  by (cases c) (simp_all add: try_defs client_defs Let_def await_def fetcher_no_key)

lemma run_call_no_key:
  "\<not> truthy apiKey \<Longrightarrow>
     run_call apiKey net c w
       = (Inr (text_result (error_phrase (tool_of c) @ ''V0_API_KEY is required'')), w)"
  by (simp add: run_call_try_call try_call_no_key error_message_def)

text \<open>
  Claim C10. In \<^verbatim>\<open>src/index.ts\<close> a key that is not configured (\<^verbatim>\<open>undefined\<close>) or
  empty is not rejected at the request edge: the entry point never answers 401, and a
  request to \<^verbatim>\<open>/mcp\<close> is served. Every tool call then fails in the client with
  \<^verbatim>\<open>V0_API_KEY is required\<close> before any request is sent (the world is unchanged), and
  the handler returns that failure as the text of its envelope.
\<close>

theorem unconfigured_key:
  "\<not> truthy (V0_API_KEY env) \<Longrightarrow>
     default_fetch request env \<noteq> Response 401 msg
     \<and> run_call (V0_API_KEY env) net c w
         = (Inr (text_result (error_phrase (tool_of c) @ ''V0_API_KEY is required'')), w)
     \<and> (pathname request = ''/mcp'' \<longrightarrow>
          serve_call (default_fetch request env) net c w
            = Inr (Inr (text_result (error_phrase (tool_of c) @ ''V0_API_KEY is required'')), w))"
  by (auto simp: run_call_no_key default_fetch_def serve_call_def Let_def)

theorem unconfigured_key_witness:
  "\<not> truthy (V0_API_KEY \<lparr>V0_API_KEY = JStr []\<rparr>)
   \<and> default_fetch \<lparr>pathname = ''/mcp'', searchParams = []\<rparr> \<lparr>V0_API_KEY = JStr []\<rparr>
       \<noteq> Response 401 ''Unauthorized''
   \<and> run_call (JStr []) (answering 200 [] JNull) (GetChat ''c1'') start
       = (Inr (text_result ''Error retrieving chat: V0_API_KEY is required''), start)
   \<and> serve_call (default_fetch \<lparr>pathname = ''/mcp'', searchParams = []\<rparr> \<lparr>V0_API_KEY = JStr []\<rparr>)
        (answering 200 [] JNull) (GetChat ''c1'') start
       = Inr (Inr (text_result ''Error retrieving chat: V0_API_KEY is required''), start)"
proof -
  have falsy: "\<not> truthy (V0_API_KEY \<lparr>V0_API_KEY = JStr []\<rparr>)"
    by simp
  from unconfigured_key [OF falsy, of "\<lparr>pathname = ''/mcp'', searchParams = []\<rparr>" "''Unauthorized''"
      "answering 200 [] JNull" "GetChat ''c1''" start] falsy
  show ?thesis
    by simp
qed

text \<open>
  Claim C4, as amended. The entry point of \<^verbatim>\<open>src/index.ts\<close> rejects no request for a
  missing credential: it never answers 401, it serves \<^verbatim>\<open>/mcp\<close>, \<^verbatim>\<open>/sse\<close> and
  \<^verbatim>\<open>/sse/message\<close> with the key of the environment, whatever that is, and answers 404
  on any other path. The entry point that reads the \<^verbatim>\<open>key\<close> query parameter answers
  401 when the parameter is absent or empty, before any routing, so that no tool call is
  run for that request.
\<close>

theorem request_edge:
  "default_fetch request env \<noteq> Response 401 msg
   \<and> (pathname request = ''/mcp'' \<longrightarrow> default_fetch request env = ServeMCP (V0_API_KEY env))
   \<and> (pathname request = ''/sse'' \<or> pathname request = ''/sse/message''
        \<longrightarrow> default_fetch request env = ServeSSE (V0_API_KEY env))
   \<and> (pathname request \<noteq> ''/mcp'' \<and> pathname request \<noteq> ''/sse'' \<and> pathname request \<noteq> ''/sse/message''
        \<longrightarrow> default_fetch request env = Response 404 ''Not found'')
   \<and> (\<not> truthy (searchParams_get (searchParams request) ''key'')
        \<longrightarrow> default_fetch_key request env = Response 401 ''Missing key query parameter''
            \<and> serve_call (default_fetch_key request env) net c w
                = Inl (401, ''Missing key query parameter''))"
  by (simp add: default_fetch_def default_fetch_key_def serve_call_def Let_def)

theorem request_edge_witness:
  "default_fetch \<lparr>pathname = ''/mcp'', searchParams = []\<rparr> \<lparr>V0_API_KEY = JStr ''k''\<rparr>
     = ServeMCP (JStr ''k'')
   \<and> default_fetch \<lparr>pathname = ''/sse'', searchParams = []\<rparr> \<lparr>V0_API_KEY = JStr ''k''\<rparr>
     = ServeSSE (JStr ''k'')
   \<and> default_fetch \<lparr>pathname = ''/'', searchParams = []\<rparr> \<lparr>V0_API_KEY = JStr ''k''\<rparr>
     = Response 404 ''Not found''
   \<and> \<not> truthy (searchParams_get [] ''key'')
   \<and> default_fetch_key \<lparr>pathname = ''/mcp'', searchParams = []\<rparr> \<lparr>V0_API_KEY = JStr ''k''\<rparr>
     = Response 401 ''Missing key query parameter''"
  using request_edge [of "\<lparr>pathname = ''/mcp'', searchParams = []\<rparr>" "\<lparr>V0_API_KEY = JStr ''k''\<rparr>"
      "''Unauthorized''" "answering 200 [] JNull" GetUserInfo start]
    request_edge [of "\<lparr>pathname = ''/sse'', searchParams = []\<rparr>" "\<lparr>V0_API_KEY = JStr ''k''\<rparr>"
      "''Unauthorized''" "answering 200 [] JNull" GetUserInfo start]
    request_edge [of "\<lparr>pathname = ''/'', searchParams = []\<rparr>" "\<lparr>V0_API_KEY = JStr ''k''\<rparr>"
      "''Unauthorized''" "answering 200 [] JNull" GetUserInfo start]
  by (simp add: searchParams_get_def)

text \<open>
  The claim as it was stated fails at the entry point of \<^verbatim>\<open>src/index.ts\<close>: a request to
  \<^verbatim>\<open>/mcp\<close> that carries no credential, with no key configured either, is handed to the
  MCP server, and a tool call made through it gets a result envelope.
\<close>

theorem unguarded_edge:
  "default_fetch \<lparr>pathname = ''/mcp'', searchParams = []\<rparr> \<lparr>V0_API_KEY = JUndefined\<rparr>
     = ServeMCP JUndefined
   \<and> serve_call (default_fetch \<lparr>pathname = ''/mcp'', searchParams = []\<rparr> \<lparr>V0_API_KEY = JUndefined\<rparr>)
        (answering 200 [] JNull) GetUserInfo start
     = Inr (Inr (text_result ''Error getting user info: V0_API_KEY is required''), start)"
  by code_simp


section \<open>One upstream request per call\<close>

text \<open>With a truthy key \<^verbatim>\<open>fetcher\<close> sends exactly its request and settles the answer.\<close>

lemma fst_fetcher:
  "truthy apiKey \<Longrightarrow>
     fst (fetcher apiKey net url method params w)
       = settle (fst (net (fst w) (request_for apiKey url method params)))"
  by (cases "net (fst w) (request_for apiKey url method params)")
    (simp add: fetcher_def request_for_def settle_def Let_def await_def sync_def throw_def fetch_def
      split: sum.splits)

lemma snd_fetcher:
  "truthy apiKey \<Longrightarrow>
     snd (fetcher apiKey net url method params w)
       = (snd (net (fst w) (request_for apiKey url method params)),
          snd w @ [request_for apiKey url method params])"
  by (cases "net (fst w) (request_for apiKey url method params)")
    (simp add: fetcher_def request_for_def settle_def Let_def await_def sync_def throw_def fetch_def
      split: sum.splits)

text \<open>What follows the upstream call in a handler is synchronous: it leaves the world as
  it is, and its result is a function of the value it is given.\<close>

lemma return_sync: "return x = sync (Inr x)"
  by (rule ext) (simp add: return_def sync_def)

lemma await_sync_sync:
  "await (sync r) (\<lambda>x. sync (k x)) = sync (case r of Inl e \<Rightarrow> Inl e | Inr x \<Rightarrow> k x)"
  by (rule ext) (simp add: await_def sync_def split: sum.splits)

lemma fst_await_sync:
  "fst (await m (\<lambda>x. sync (k x)) w) = (case fst (m w) of Inl e \<Rightarrow> Inl e | Inr x \<Rightarrow> k x)"
  by (cases "m w") (simp add: await_def sync_def split: sum.splits)

lemma snd_await_sync: "snd (await m (\<lambda>x. sync (k x)) w) = snd (m w)"
  by (cases "m w") (simp add: await_def sync_def split: sum.splits)

lemma fst_try_catch:
  "fst (try_catch m (\<lambda>e. sync (Inr (h e))) w)
     = (case fst (m w) of Inl e \<Rightarrow> Inr (h e) | Inr x \<Rightarrow> Inr x)"
  by (cases "m w") (simp add: try_catch_def sync_def split: sum.splits)

lemma snd_try_catch: "snd (try_catch m (\<lambda>e. sync (Inr (h e))) w) = snd (m w)"
  by (cases "m w") (simp add: try_catch_def sync_def split: sum.splits)

lemmas purify = return_sync await_sync_sync fst_await_sync snd_await_sync fst_try_catch
  snd_try_catch

subsection \<open>The query string of \<^verbatim>\<open>find_chats\<close>\<close>












section \<open>The text of a listing\<close>








section \<open>The request of \<^verbatim>\<open>create_chat\<close>\<close>

lemma create_chat_world:
  "truthy apiKey \<Longrightarrow>
     snd (snd (run_call apiKey net
                 (CreateChat message system chatPrivacy modelId imageGenerations) (u, sent)))
       = sent @ [request_for apiKey ''/chats'' ''POST''
                   \<lparr>query = None,
                    body = JObj [(''message'', JStr message),
                                 (''attachments'', JUndefined),
                                 (''system'', opt JStr system),
                                 (''chatPrivacy'', opt JStr chatPrivacy),
                                 (''projectId'', JUndefined),
                                 (''modelConfiguration'',
                                    if truthy (opt JStr modelId)
                                    then JObj [(''modelId'', opt JStr modelId),
                                               (''imageGenerations'',
                                                  nullish (opt JBool imageGenerations) (JBool False))]
                                    else JUndefined)]\<rparr>]"
  by (simp add: create_chat_handler_def create_chat_try_def chats_create_def own_prop_def Let_def
      purify snd_fetcher)

text \<open>
  Claim C2. With a key configured, a \<^verbatim>\<open>create_chat\<close> call sends one \<^verbatim>\<open>POST /chats\<close>
  request whose body is the serialization of an object \<open>B\<close>. When \<^verbatim>\<open>modelId\<close> is one
  of the three declared model ids, the members written for \<open>B\<close> include
  \<^verbatim>\<open>modelConfiguration\<close>, an object of exactly \<^verbatim>\<open>modelId\<close> and
  \<^verbatim>\<open>imageGenerations\<close>, the latter \<^verbatim>\<open>false\<close> when omitted. When \<^verbatim>\<open>modelId\<close> is
  absent, no member named \<^verbatim>\<open>modelConfiguration\<close> is written, whatever
  \<^verbatim>\<open>imageGenerations\<close> is.
\<close>

theorem create_chat_model_configuration:
  "truthy apiKey \<Longrightarrow>
     \<exists>B. snd (snd (run_call apiKey net
                     (CreateChat message system chatPrivacy modelId imageGenerations) (u, sent)))
            = sent @ [\<lparr>req_url = ''https://api.v0.dev/v1/chats'', req_method = ''POST'',
                       req_headers = [(''Authorization'', ''Bearer '' @ to_string apiKey),
                                      (''Content-Type'', ''application/json'')],
                       req_body = Some (serialize [] [] (JObj B))\<rparr>]
        \<and> (modelId = Some m \<and> m \<in> set [''v0-1.5-sm'', ''v0-1.5-md'', ''v0-1.5-lg'']
             \<longrightarrow> map_of (members B) ''modelConfiguration''
                   = Some (JObj [(''modelId'', JStr m),
                                 (''imageGenerations'',
                                    JBool (case imageGenerations of None \<Rightarrow> False | Some b \<Rightarrow> b))])
                 \<and> members [(''modelId'', JStr m),
                             (''imageGenerations'',
                                JBool (case imageGenerations of None \<Rightarrow> False | Some b \<Rightarrow> b))]
                   = [(''modelId'', JStr m),
                      (''imageGenerations'',
                         JBool (case imageGenerations of None \<Rightarrow> False | Some b \<Rightarrow> b))])
        \<and> (modelId = None \<longrightarrow> map_of (members B) ''modelConfiguration'' = None)"
proof -
  assume key: "truthy apiKey"
  let ?B = "[(''message'', JStr message),
             (''attachments'', JUndefined),
             (''system'', opt JStr system),
             (''chatPrivacy'', opt JStr chatPrivacy),
             (''projectId'', JUndefined),
             (''modelConfiguration'',
                if truthy (opt JStr modelId)
                then JObj [(''modelId'', opt JStr modelId),
                           (''imageGenerations'', nullish (opt JBool imageGenerations) (JBool False))]
                else JUndefined)]"
  have request: "request_for apiKey ''/chats'' ''POST'' \<lparr>query = None, body = JObj ?B\<rparr>
      = \<lparr>req_url = ''https://api.v0.dev/v1/chats'', req_method = ''POST'',
         req_headers = [(''Authorization'', ''Bearer '' @ to_string apiKey),
                        (''Content-Type'', ''application/json'')],
         req_body = Some (serialize [] [] (JObj ?B))\<rparr>"
    by (simp add: request_for_def BASE_URL_def)
  have absent: "map_of (members ?B) ''modelConfiguration'' = None" if "modelId = None"
    using that by (cases system; cases chatPrivacy) (simp_all add: members_def opt_def)
  have present: "map_of (members ?B) ''modelConfiguration''
      = Some (JObj [(''modelId'', JStr m),
                    (''imageGenerations'',
                       JBool (case imageGenerations of None \<Rightarrow> False | Some b \<Rightarrow> b))])"
    if "modelId = Some m" and "m \<in> set [''v0-1.5-sm'', ''v0-1.5-md'', ''v0-1.5-lg'']"
    using that
    by (cases system; cases chatPrivacy; cases imageGenerations)
      (auto simp: members_def opt_def nullish_def)
  have both: "members [(''modelId'', JStr m),
                       (''imageGenerations'',
                          JBool (case imageGenerations of None \<Rightarrow> False | Some b \<Rightarrow> b))]
      = [(''modelId'', JStr m),
         (''imageGenerations'', JBool (case imageGenerations of None \<Rightarrow> False | Some b \<Rightarrow> b))]"
    by (simp add: members_def)
  have world: "snd (snd (run_call apiKey net
                     (CreateChat message system chatPrivacy modelId imageGenerations) (u, sent)))
            = sent @ [\<lparr>req_url = ''https://api.v0.dev/v1/chats'', req_method = ''POST'',
                       req_headers = [(''Authorization'', ''Bearer '' @ to_string apiKey),
                                      (''Content-Type'', ''application/json'')],
                       req_body = Some (serialize [] [] (JObj ?B))\<rparr>]"
    unfolding request [symmetric] by (rule create_chat_world [OF key])
  show ?thesis
    by (rule exI [of _ ?B]) (use world absent present both in blast)
qed

theorem create_chat_model_configuration_witness:
  "truthy (JStr ''key123'')
   \<and> ''v0-1.5-md'' \<in> set [''v0-1.5-sm'', ''v0-1.5-md'', ''v0-1.5-lg'']
   \<and> (\<exists>B. snd (snd (run_call (JStr ''key123'') (answering 200 [] JNull)
                       (CreateChat ''Build a todo app'' None None (Some ''v0-1.5-md'') (Some True))
                       ((), [])))
             = [] @ [\<lparr>req_url = ''https://api.v0.dev/v1/chats'', req_method = ''POST'',
                       req_headers = [(''Authorization'', ''Bearer '' @ to_string (JStr ''key123'')),
                                      (''Content-Type'', ''application/json'')],
                       req_body = Some (serialize [] [] (JObj B))\<rparr>]
           \<and> map_of (members B) ''modelConfiguration''
               = Some (JObj [(''modelId'', JStr ''v0-1.5-md''), (''imageGenerations'', JBool True)]))
   \<and> (\<exists>B. snd (snd (run_call (JStr ''key123'') (answering 200 [] JNull)
                       (CreateChat ''Build a todo app'' None None None (Some True)) ((), [])))
             = [] @ [\<lparr>req_url = ''https://api.v0.dev/v1/chats'', req_method = ''POST'',
                       req_headers = [(''Authorization'', ''Bearer '' @ to_string (JStr ''key123'')),
                                      (''Content-Type'', ''application/json'')],
                       req_body = Some (serialize [] [] (JObj B))\<rparr>]
           \<and> map_of (members B) ''modelConfiguration'' = None)"
proof -
  have key: "truthy (JStr ''key123'')"
    by simp
  have declared: "''v0-1.5-md'' \<in> set [''v0-1.5-sm'', ''v0-1.5-md'', ''v0-1.5-lg'']"
    by simp
  from create_chat_model_configuration [OF key, of "answering 200 [] JNull" "''Build a todo app''"
      None None "Some ''v0-1.5-md''" "Some True" "()" "[]" "''v0-1.5-md''"] declared
  have supplied: "\<exists>B. snd (snd (run_call (JStr ''key123'') (answering 200 [] JNull)
                       (CreateChat ''Build a todo app'' None None (Some ''v0-1.5-md'') (Some True))
                       ((), [])))
             = [] @ [\<lparr>req_url = ''https://api.v0.dev/v1/chats'', req_method = ''POST'',
                       req_headers = [(''Authorization'', ''Bearer '' @ to_string (JStr ''key123'')),
                                      (''Content-Type'', ''application/json'')],
                       req_body = Some (serialize [] [] (JObj B))\<rparr>]
           \<and> map_of (members B) ''modelConfiguration''
               = Some (JObj [(''modelId'', JStr ''v0-1.5-md''), (''imageGenerations'', JBool True)])"
    by auto
  from create_chat_model_configuration [OF key, of "answering 200 [] JNull" "''Build a todo app''"
      None None None "Some True" "()" "[]" "''v0-1.5-md''"]
  have omitted: "\<exists>B. snd (snd (run_call (JStr ''key123'') (answering 200 [] JNull)
                       (CreateChat ''Build a todo app'' None None None (Some True)) ((), [])))
             = [] @ [\<lparr>req_url = ''https://api.v0.dev/v1/chats'', req_method = ''POST'',
                       req_headers = [(''Authorization'', ''Bearer '' @ to_string (JStr ''key123'')),
                                      (''Content-Type'', ''application/json'')],
                       req_body = Some (serialize [] [] (JObj B))\<rparr>]
           \<and> map_of (members B) ''modelConfiguration'' = None"
    by auto
  from key declared supplied omitted show ?thesis
    by blast
qed

text \<open>The two bodies on the wire, for the call of the specification's round trip and for
  the same call without \<^verbatim>\<open>modelId\<close>.\<close>

lemma create_chat_wire_examples:
  "map req_body
     (snd (snd (run_call (JStr ''key123'') (answering 200 [] JNull)
                  (CreateChat ''hi'' None None (Some ''v0-1.5-md'') (Some True)) start)))
     = [Some (''{'' @ quote ''message'' @ '':'' @ quote ''hi'' @ '','' @ quote ''modelConfiguration''
              @ '':{'' @ quote ''modelId'' @ '':'' @ quote ''v0-1.5-md'' @ '',''
              @ quote ''imageGenerations'' @ '':true}}'')]"
  "map req_body
     (snd (snd (run_call (JStr ''key123'') (answering 200 [] JNull)
                  (CreateChat ''hi'' None None None (Some True)) start)))
     = [Some (''{'' @ quote ''message'' @ '':'' @ quote ''hi'' @ ''}'')]"
  by code_simp+

section \<open>A call without a required argument\<close>

lemma lookup_tool_name: "lookup (tool_name t) = Some t"
  by (cases t) (simp_all add: lookup_def tools_def)

text \<open>Arguments that pass validation always bind to a call of the tool: the last exit
  of \<open>dispatch\<close> before the handler is never taken.\<close>

lemma decode_bind:
  "decode rawArguments (parameterSchema t) = Inr args \<Longrightarrow> bind_call t args \<noteq> None"
  by (cases t)
    (auto simp: decode_def offending_def str_arg_def pagination_def Let_def
      split: if_splits option.splits js.splits elim!: conforms.elims)

text \<open>A call that validates reaches its handler, here with the request it sends.\<close>

lemma dispatch_create_chat_example:
  "dispatch ''create_chat'' [(''message'', JStr ''Build a todo app'')] (JStr ''key123'')
     (answering 200 [] (JObj [(''id'', JStr ''c1''), (''url'', JStr ''https://v0.dev/chat/c1'')]))
     start
   = (Inr (Result (text_result (''Chat created successfully!'' @ NL @ NL
                                @ ''Chat URL: https://v0.dev/chat/c1'' @ NL @ ''Chat ID: c1''))),
      ((), [\<lparr>req_url = ''https://api.v0.dev/v1/chats'', req_method = ''POST'',
             req_headers = [(''Authorization'', ''Bearer key123''),
                            (''Content-Type'', ''application/json'')],
             req_body = Some (''{'' @ quote ''message'' @ '':'' @ quote ''Build a todo app'' @ ''}'')\<rparr>]))"
  by code_simp

text \<open>Nor does a dispatch throw, whatever the name and the raw arguments are.\<close>

lemma dispatch_returns:
  "\<exists>r w'. dispatch name rawArguments credential net w = (Inr r, w')"
proof -
  have "\<exists>r w'. await (run_call credential net c) (\<lambda>result. return (Result result)) w = (Inr r, w')"
    for c
    using run_call_text [of credential net c w] by (auto simp: await_def return_def)
  then show ?thesis
    by (simp add: dispatch_def return_def split: option.splits sum.splits)
qed

lemma decode_offender:
  assumes "p \<in> set schema" and "offending rawArguments p"
  shows "decode rawArguments schema = Inl (map param_name (filter (offending rawArguments) schema))"
    and "param_name p \<in> set (map param_name (filter (offending rawArguments) schema))"
proof -
  from assms have "filter (offending rawArguments) schema \<noteq> []"
    by (auto simp: filter_empty_conv)
  then show "decode rawArguments schema
      = Inl (map param_name (filter (offending rawArguments) schema))"
    by (simp add: decode_def Let_def)
  from assms show "param_name p \<in> set (map param_name (filter (offending rawArguments) schema))"
    by (auto intro!: image_eqI [of _ _ p])
qed

text \<open>
  Claim C3. When the raw arguments of a call lack a field that the schema of the tool
  requires, decoding fails with a validation failure that lists that field, and the dispatch
  ends there, in the world it started in: no request has been sent and the platform has
  not been asked anything.
\<close>

theorem missing_required_field:
  "p \<in> set (parameterSchema t) \<and> required p \<and> map_of rawArguments (param_name p) = None \<Longrightarrow>
     \<exists>offenders. decode rawArguments (parameterSchema t) = Inl offenders
        \<and> param_name p \<in> set offenders
        \<and> dispatch (tool_name t) rawArguments credential net w
            = (Inr (ValidationFailure offenders), w)"
proof -
  assume a: "p \<in> set (parameterSchema t) \<and> required p
             \<and> map_of rawArguments (param_name p) = None"
  then have declared: "p \<in> set (parameterSchema t)" and offends: "offending rawArguments p"
    by (simp_all add: offending_def)
  have failed: "decode rawArguments (parameterSchema t)
        = Inl (map param_name (filter (offending rawArguments) (parameterSchema t)))"
    and listed: "param_name p
        \<in> set (map param_name (filter (offending rawArguments) (parameterSchema t)))"
    by (rule decode_offender [OF declared offends])+
  from failed have "dispatch (tool_name t) rawArguments credential net w
      = (Inr (ValidationFailure (map param_name (filter (offending rawArguments) (parameterSchema t)))), w)"
    by (simp add: dispatch_def lookup_tool_name return_def)
  with failed listed show ?thesis
    by blast
qed

theorem missing_required_field_witness:
  "\<lparr>param_name = ''chatId'', semanticType = ZString, required = True\<rparr> \<in> set (parameterSchema get_chat)
   \<and> required \<lparr>param_name = ''chatId'', semanticType = ZString, required = True\<rparr>
   \<and> map_of [] (param_name \<lparr>param_name = ''chatId'', semanticType = ZString, required = True\<rparr>)
       = (None :: js option)
   \<and> (\<exists>offenders. decode [] (parameterSchema get_chat) = Inl offenders
        \<and> ''chatId'' \<in> set offenders
        \<and> dispatch ''get_chat'' [] (JStr ''key123'') (answering 200 [] JNull) start
            = (Inr (ValidationFailure offenders), start))"
proof -
  have given: "\<lparr>param_name = ''chatId'', semanticType = ZString, required = True\<rparr>
        \<in> set (parameterSchema get_chat)
      \<and> required \<lparr>param_name = ''chatId'', semanticType = ZString, required = True\<rparr>
      \<and> map_of [] (param_name \<lparr>param_name = ''chatId'', semanticType = ZString, required = True\<rparr>)
          = (None :: js option)"
    by simp
  from missing_required_field [OF given, of "JStr ''key123''" "answering 200 [] JNull" start] given
  show ?thesis
    by simp
qed

section \<open>Two calls of \<^verbatim>\<open>get_user_info\<close>\<close>

text \<open>
  Claim C8. The envelope of a \<^verbatim>\<open>get_user_info\<close> call is determined by the credential
  and by what the platform answers to the one request \<^verbatim>\<open>GET /user\<close>: two calls with the
  same credential whose request gets the same answer return the same envelope, whatever
  the state of the platform, the requests sent before and the rest of its behaviour. The
  handler keeps no state of its own.
\<close>

theorem get_user_info_deterministic:
  "fst (net u (request_for credential ''/user'' ''GET'' no_params))
     = fst (net' u' (request_for credential ''/user'' ''GET'' no_params))
   \<Longrightarrow> fst (run_call credential net GetUserInfo (u, sent))
       = fst (run_call credential net' GetUserInfo (u', sent'))"
proof (cases "truthy credential")
  case True
  assume "fst (net u (request_for credential ''/user'' ''GET'' no_params))
     = fst (net' u' (request_for credential ''/user'' ''GET'' no_params))"
  with True show ?thesis
    by (simp add: get_user_info_handler_def get_user_info_try_def user_get_def purify fst_fetcher)
next
  case False
  show ?thesis
    by (simp only: run_call_no_key [OF False] fst_conv)
qed

theorem get_user_info_deterministic_witness:
  "fst (answering 200 [] (JObj [(''id'', JStr ''u1''), (''email'', JStr ''a@b.c'')]) ()
          (request_for (JStr ''key123'') ''/user'' ''GET'' no_params))
     = fst (answering 200 [] (JObj [(''id'', JStr ''u1''), (''email'', JStr ''a@b.c'')]) ()
          (request_for (JStr ''key123'') ''/user'' ''GET'' no_params))
   \<and> fst (run_call (JStr ''key123'')
            (answering 200 [] (JObj [(''id'', JStr ''u1''), (''email'', JStr ''a@b.c'')]))
            GetUserInfo start)
       = Inr (text_result (''User Information:'' @ NL @ NL @ ''ID: u1'' @ NL @ ''Email: a@b.c''
                           @ NL @ ''Name: Not provided''))
   \<and> fst (run_call (JStr ''key123'')
            (answering 200 [] (JObj [(''id'', JStr ''u1''), (''email'', JStr ''a@b.c'')]))
            GetUserInfo
            (snd (run_call (JStr ''key123'')
                    (answering 200 [] (JObj [(''id'', JStr ''u1''), (''email'', JStr ''a@b.c'')]))
                    GetUserInfo start)))
       = fst (run_call (JStr ''key123'')
                (answering 200 [] (JObj [(''id'', JStr ''u1''), (''email'', JStr ''a@b.c'')]))
                GetUserInfo start)"
proof -
  let ?net = "answering 200 [] (JObj [(''id'', JStr ''u1''), (''email'', JStr ''a@b.c'')])"
  let ?req = "\<lparr>req_url = ''https://api.v0.dev/v1/user'', req_method = ''GET'',
               req_headers = [(''Authorization'', ''Bearer key123'')], req_body = None\<rparr>"
  have first: "run_call (JStr ''key123'') ?net GetUserInfo start
      = (Inr (text_result (''User Information:'' @ NL @ NL @ ''ID: u1'' @ NL @ ''Email: a@b.c''
                           @ NL @ ''Name: Not provided'')), ((), [?req]))"
    by code_simp
  have same: "fst (?net () (request_for (JStr ''key123'') ''/user'' ''GET'' no_params))
      = fst (?net () (request_for (JStr ''key123'') ''/user'' ''GET'' no_params))"
    by simp
  from get_user_info_deterministic [of ?net "()" "JStr ''key123''" ?net "()" "[?req]" "[]"] same
  have "fst (run_call (JStr ''key123'') ?net GetUserInfo ((), [?req]))
      = fst (run_call (JStr ''key123'') ?net GetUserInfo start)"
    by (simp only: start_def)
  with first same show ?thesis
    by (simp only: fst_conv snd_conv simp_thms)
qed


end
